theory Spec2Isabelle
  imports Main "HOL-Library.Word" "HOL-Library.Sublist"
begin

section \<open>Strings, dates and JSON values of the platform\<close>

text \<open>
  A JavaScript string is a sequence of UTF-16 code units; \<open>length\<close> counts code units,
  as \<^verbatim>\<open>String.prototype.length\<close> does.  Literals of the source are written with \<open>js\<close>.
  Error messages are only ever concatenated and compared, so they stay HOL strings.
\<close>

type_synonym jsstring = "16 word list"

definition js :: "string \<Rightarrow> jsstring" where
  "js s = map of_char s"

text \<open>
  The characters removed by \<^verbatim>\<open>String.prototype.trim\<close> and matched by the regular expression
  class \<^verbatim>\<open>\s\<close>: ECMAScript's WhiteSpace and LineTerminator code points (the same set for both).
\<close>

definition isWhiteSpace :: "16 word \<Rightarrow> bool" where
  "isWhiteSpace c \<longleftrightarrow>
     c = 0x0009 \<or> c = 0x000A \<or> c = 0x000B \<or> c = 0x000C \<or> c = 0x000D \<or> c = 0x0020 \<or>
     c = 0x00A0 \<or> c = 0x1680 \<or> (0x2000 \<le> c \<and> c \<le> 0x200A) \<or> c = 0x2028 \<or> c = 0x2029 \<or>
     c = 0x202F \<or> c = 0x205F \<or> c = 0x3000 \<or> c = 0xFEFF"

definition SPACE :: "16 word" where
  "SPACE = 0x0020"

definition trim :: "jsstring \<Rightarrow> jsstring" where
  "trim s = rev (dropWhile isWhiteSpace (rev (dropWhile isWhiteSpace s)))"

text \<open>
  \<^verbatim>\<open>s.replace(/\s+/g, ' ')\<close>: scanning from the left, every maximal run of whitespace is
  replaced by one space; every other code unit is copied.
\<close>

function replace_ws_runs :: "jsstring \<Rightarrow> jsstring" where
  "replace_ws_runs [] = []"
| "replace_ws_runs (c # cs) =
     (if isWhiteSpace c then SPACE # replace_ws_runs (dropWhile isWhiteSpace cs)
      else c # replace_ws_runs cs)"
  by pat_completeness auto
termination
  by (relation "measure length") (auto simp: less_Suc_eq_le length_dropWhile_le)

text \<open>
  A \<^verbatim>\<open>Date\<close> object holds a time value: an integral number of milliseconds since the epoch,
  or NaN (an "Invalid Date", what \<^verbatim>\<open>new Date(s)\<close> gives for a string it cannot parse).
\<close>

datatype date = Date int | InvalidDate

fun isValidDate :: "date \<Rightarrow> bool" where
  "isValidDate (Date _) = True"
| "isValidDate InvalidDate = False"

text \<open>\<^verbatim>\<open>a >= b\<close> on two dates compares the time values; a comparison with NaN is false.\<close>

fun date_ge :: "date \<Rightarrow> date \<Rightarrow> bool" where
  "date_ge (Date a) (Date b) = (b \<le> a)"
| "date_ge _ _ = False"

text \<open>
  A JSON text is represented by the value it denotes (what \<^verbatim>\<open>JSON.parse\<close> returns for it and
  what \<^verbatim>\<open>JSON.stringify\<close> was given); the concrete syntax, the indentation asked for by
  \<^verbatim>\<open>JSON.stringify(v, null, 2)\<close> included, belongs to the platform.  Numbers are never
  inspected by the program.
\<close>

datatype json =
    JNull
  | JBool bool
  | JNumber int
  | JString jsstring
  | JArray "json list"
  | JObject "(jsstring \<times> json) list"

text \<open>Property access \<^verbatim>\<open>v.k\<close>; \<open>None\<close> is \<^verbatim>\<open>undefined\<close>.\<close>

fun getProp :: "json \<Rightarrow> jsstring \<Rightarrow> json option" where
  "getProp (JObject ps) k = map_of ps k"
| "getProp _ k = None"

fun typeof_object :: "json \<Rightarrow> bool" where
  "typeof_object JNull = True"
| "typeof_object (JArray _) = True"
| "typeof_object (JObject _) = True"
| "typeof_object _ = False"

fun typeof_string :: "json option \<Rightarrow> bool" where
  "typeof_string (Some (JString _)) = True"
| "typeof_string _ = False"

fun typeof_boolean :: "json option \<Rightarrow> bool" where
  "typeof_boolean (Some (JBool _)) = True"
| "typeof_boolean _ = False"

fun the_string :: "json option \<Rightarrow> jsstring" where
  "the_string (Some (JString s)) = s"
| "the_string _ = []"

fun the_boolean :: "json option \<Rightarrow> bool" where
  "the_boolean (Some (JBool b)) = b"
| "the_boolean _ = False"

section \<open>The data model (types.ts)\<close>

record Todo =
  todo_id :: jsstring
  todo_text :: jsstring
  completed :: bool
  createdAt :: date
  updatedAt :: date

datatype TodoFilter = FilterAll | FilterCompleted | FilterPending

datatype error = ValidationError string | StorageError string | Error string

fun message :: "error \<Rightarrow> string" where
  "message (ValidationError m) = m"
| "message (StorageError m) = m"
| "message (Error m) = m"

fun isValidationError :: "error \<Rightarrow> bool" where
  "isValidationError (ValidationError _) = True"
| "isValidationError _ = False"

fun isStorageError :: "error \<Rightarrow> bool" where
  "isStorageError (StorageError _) = True"
| "isStorageError _ = False"

text \<open>
  What a call reads from its surroundings: the clock (\<open>date_now\<close> is the reading of
  \<^verbatim>\<open>Date.now()\<close> in \<^verbatim>\<open>generateId\<close>, \<open>new_date1\<close> and \<open>new_date2\<close> are the readings of the
  first and the second \<^verbatim>\<open>new Date()\<close> of the call), the digits
  \<^verbatim>\<open>Math.random().toString(36).substr(2)\<close>, whether \<^verbatim>\<open>localStorage.setItem\<close> and
  \<^verbatim>\<open>localStorage.removeItem\<close> return normally during the call, and the platform's
  \<^verbatim>\<open>Date.prototype.toISOString\<close> and date parser (\<^verbatim>\<open>new Date(s)\<close> for a string).
\<close>

record env =
  date_now :: int
  random36 :: jsstring
  new_date1 :: int
  new_date2 :: int
  setItem_ok :: bool
  removeItem_ok :: bool
  toISOString :: "int \<Rightarrow> jsstring"
  date_parse :: "jsstring \<Rightarrow> date"

text \<open>
  The object's fields \<^verbatim>\<open>todos\<close> and \<^verbatim>\<open>currentFilter\<close>, and the two entries of
  \<^verbatim>\<open>localStorage\<close> it writes (\<open>None\<close>: the key is absent).  Every operation takes the state
  and returns the state it leaves behind together with its result, \<open>Inl\<close> for a raised
  error: a method that raises after assigning a field returns the assigned state.
\<close>

record state =
  todos :: "Todo list"
  currentFilter :: TodoFilter
  ls_todos :: "json option"
  ls_filter :: "TodoFilter option"

section \<open>StorageUtils (utils.ts)\<close>

text \<open>
  The object \<^verbatim>\<open>saveTodos\<close> serialises for a record.  \<^verbatim>\<open>toISOString\<close> is reached with valid
  dates only: \<open>saveTodos\<close> below raises before, so the other case is never used.
\<close>

definition todo_entry :: "env \<Rightarrow> Todo \<Rightarrow> json" where
  "todo_entry e t =
     JObject [(js ''id'', JString (todo_id t)),
              (js ''text'', JString (todo_text t)),
              (js ''completed'', JBool (completed t)),
              (js ''createdAt'', JString (case createdAt t of Date ms \<Rightarrow> toISOString e ms | InvalidDate \<Rightarrow> [])),
              (js ''updatedAt'', JString (case updatedAt t of Date ms \<Rightarrow> toISOString e ms | InvalidDate \<Rightarrow> []))]"

text \<open>
  \<^verbatim>\<open>saveTodos\<close>: \<^verbatim>\<open>toISOString\<close> throws a RangeError on an invalid date and
  \<^verbatim>\<open>setItem\<close> may throw; either way the catch turns it into a StorageError and nothing
  is written.  The result is the new content of the entry.
\<close>

definition saveTodos :: "env \<Rightarrow> Todo list \<Rightarrow> error + json" where
  "saveTodos e ts =
     (if list_all (\<lambda>t. isValidDate (createdAt t) \<and> isValidDate (updatedAt t)) ts \<and> setItem_ok e
      then Inr (JArray (map (todo_entry e) ts))
      else Inl (StorageError ''Failed to save todos to localStorage''))"

definition saveFilter :: "env \<Rightarrow> TodoFilter \<Rightarrow> error + TodoFilter" where
  "saveFilter e f =
     (if setItem_ok e then Inr f else Inl (StorageError ''Failed to save filter to localStorage''))"

section \<open>TodoList: validation and helpers\<close>

definition validateTodoText :: "jsstring \<Rightarrow> error + unit" where
  "validateTodoText text =
     (if text = [] then Inl (ValidationError ''Todo text is required'')
      else if length (trim text) = 0 then Inl (ValidationError ''Todo text cannot be empty'')
      else if length (trim text) > 200
        then Inl (ValidationError ''Todo text cannot exceed 200 characters'')
      else Inr ())"

definition sanitizeTodoText :: "jsstring \<Rightarrow> jsstring" where
  "sanitizeTodoText text = replace_ws_runs (trim text)"

definition validateId :: "jsstring \<Rightarrow> error + unit" where
  "validateId i =
     (if i = [] then Inl (ValidationError ''Todo ID is required'')
      else if length (trim i) = 0 then Inl (ValidationError ''Todo ID cannot be empty'')
      else Inr ())"

text \<open>
  \<^verbatim>\<open>n.toString(36)\<close> for an integer (digits \<^verbatim>\<open>0-9a-z\<close>), and \<^verbatim>\<open>generateId\<close>.
\<close>

definition digit36 :: "nat \<Rightarrow> 16 word" where
  "digit36 d = (if d < 10 then of_nat (48 + d) else of_nat (87 + d))"

fun digits36 :: "nat \<Rightarrow> jsstring" where
  "digits36 n = (if n < 36 then [digit36 n] else digits36 (n div 36) @ [digit36 (n mod 36)])"

definition toString36 :: "int \<Rightarrow> jsstring" where
  "toString36 n = (if n < 0 then 0x2D # digits36 (nat (- n)) else digits36 (nat n))"

definition generateId :: "env \<Rightarrow> jsstring" where
  "generateId e = toString36 (date_now e) @ random36 e"

fun findIndex :: "('a \<Rightarrow> bool) \<Rightarrow> 'a list \<Rightarrow> nat option" where
  "findIndex P [] = None"
| "findIndex P (x # xs) = (if P x then Some 0 else map_option Suc (findIndex P xs))"

definition filterTodos :: "Todo list \<Rightarrow> TodoFilter \<Rightarrow> Todo list" where
  "filterTodos ts f =
     (case f of
        FilterCompleted \<Rightarrow> filter (\<lambda>t. completed t) ts
      | FilterPending \<Rightarrow> filter (\<lambda>t. \<not> completed t) ts
      | FilterAll \<Rightarrow> ts)"

text \<open>
  The catch blocks.  Most methods re-throw a ValidationError as it is and wrap every other
  error in a plain \<^verbatim>\<open>Error\<close> whose message has the method's prefix; \<^verbatim>\<open>deleteCompletedTodos\<close>,
  \<^verbatim>\<open>clearAll\<close> and \<^verbatim>\<open>importTodos\<close> wrap every error.
\<close>

definition rethrow :: "string \<Rightarrow> error \<Rightarrow> error" where
  "rethrow what err = (if isValidationError err then err else Error (what @ message err))"

definition wrap :: "string \<Rightarrow> error \<Rightarrow> error" where
  "wrap what err = Error (what @ message err)"

definition saveToStorage :: "env \<Rightarrow> state \<Rightarrow> state \<times> (error + unit)" where
  "saveToStorage e s =
     (case saveTodos e (todos s) of
        Inl err \<Rightarrow> (s, Inl (StorageError (''Failed to save todos to storage: '' @ message err)))
      | Inr j \<Rightarrow> (s\<lparr>ls_todos := Some j\<rparr>, Inr ()))"

definition saveFilterToStorage :: "env \<Rightarrow> state \<Rightarrow> state \<times> (error + unit)" where
  "saveFilterToStorage e s =
     (case saveFilter e (currentFilter s) of
        Inl err \<Rightarrow> (s, Inl (StorageError (''Failed to save filter to storage: '' @ message err)))
      | Inr f \<Rightarrow> (s\<lparr>ls_filter := Some f\<rparr>, Inr ()))"

section \<open>TodoList: the operations\<close>

text \<open>
  The arguments have the types the methods declare, so the checks \<^verbatim>\<open>typeof text !== 'string'\<close>,
  \<^verbatim>\<open>validateCompletedStatus\<close> and \<^verbatim>\<open>validateFilter\<close> always pass and \<^verbatim>\<open>!text\<close> holds of the
  empty string only.  \<^verbatim>\<open>updates\<close> has an optional text and an optional completed flag
  (\<open>None\<close>: the field is \<^verbatim>\<open>undefined\<close>).
\<close>

definition addTodo :: "env \<Rightarrow> jsstring \<Rightarrow> state \<Rightarrow> state \<times> (error + Todo)" where
  "addTodo e text s =
     (case validateTodoText text of
        Inl err \<Rightarrow> (s, Inl (rethrow ''Failed to add todo: '' err))
      | Inr _ \<Rightarrow>
          let newTodo = \<lparr>todo_id = generateId e, todo_text = sanitizeTodoText text,
                         completed = False, createdAt = Date (new_date1 e),
                         updatedAt = Date (new_date2 e)\<rparr>;
              s1 = s\<lparr>todos := todos s @ [newTodo]\<rparr>
          in (case saveToStorage e s1 of
                (s2, Inl err) \<Rightarrow> (s2, Inl (rethrow ''Failed to add todo: '' err))
              | (s2, Inr _) \<Rightarrow> (s2, Inr newTodo)))"

definition getAllTodos :: "state \<Rightarrow> Todo list" where
  "getAllTodos s = todos s"

definition getFilteredTodos :: "state \<Rightarrow> Todo list" where
  "getFilteredTodos s = filterTodos (todos s) (currentFilter s)"

definition getTodoById :: "jsstring \<Rightarrow> state \<Rightarrow> error + Todo option" where
  "getTodoById i s =
     (case validateId i of
        Inl err \<Rightarrow> Inl (rethrow ''Failed to get todo by ID: '' err)
      | Inr _ \<Rightarrow> Inr (find (\<lambda>t. todo_id t = i) (todos s)))"

record updates =
  u_text :: "jsstring option"
  u_completed :: "bool option"

definition updateTodo :: "env \<Rightarrow> jsstring \<Rightarrow> updates \<Rightarrow> state \<Rightarrow> state \<times> (error + Todo option)" where
  "updateTodo e i u s =
     (case validateId i of
        Inl err \<Rightarrow> (s, Inl (rethrow ''Failed to update todo: '' err))
      | Inr _ \<Rightarrow>
         (case findIndex (\<lambda>t. todo_id t = i) (todos s) of
            None \<Rightarrow> (s, Inr None)
          | Some todoIndex \<Rightarrow>
             let todo = todos s ! todoIndex in
             (case (case u_text u of None \<Rightarrow> Inr () | Some txt \<Rightarrow> validateTodoText txt) of
                Inl err \<Rightarrow> (s, Inl (rethrow ''Failed to update todo: '' err))
              | Inr _ \<Rightarrow>
                 let updatedTodo =
                       \<lparr>todo_id = todo_id todo,
                        todo_text = (case u_text u of Some txt \<Rightarrow> sanitizeTodoText txt
                                     | None \<Rightarrow> todo_text todo),
                        completed = (case u_completed u of Some c \<Rightarrow> c | None \<Rightarrow> completed todo),
                        createdAt = createdAt todo,
                        updatedAt = Date (new_date1 e)\<rparr>;
                     s1 = s\<lparr>todos := (todos s)[todoIndex := updatedTodo]\<rparr>
                 in (case saveToStorage e s1 of
                       (s2, Inl err) \<Rightarrow> (s2, Inl (rethrow ''Failed to update todo: '' err))
                     | (s2, Inr _) \<Rightarrow> (s2, Inr (Some updatedTodo))))))"

definition toggleTodo :: "env \<Rightarrow> jsstring \<Rightarrow> state \<Rightarrow> state \<times> (error + Todo option)" where
  "toggleTodo e i s =
     (case validateId i of
        Inl err \<Rightarrow> (s, Inl (rethrow ''Failed to toggle todo: '' err))
      | Inr _ \<Rightarrow>
         (case getTodoById i s of
            Inl err \<Rightarrow> (s, Inl (rethrow ''Failed to toggle todo: '' err))
          | Inr None \<Rightarrow> (s, Inr None)
          | Inr (Some todo) \<Rightarrow>
             (case updateTodo e i \<lparr>u_text = None, u_completed = Some (\<not> completed todo)\<rparr> s of
                (s1, Inl err) \<Rightarrow> (s1, Inl (rethrow ''Failed to toggle todo: '' err))
              | (s1, Inr r) \<Rightarrow> (s1, Inr r))))"

definition deleteTodo :: "env \<Rightarrow> jsstring \<Rightarrow> state \<Rightarrow> state \<times> (error + bool)" where
  "deleteTodo e i s =
     (case validateId i of
        Inl err \<Rightarrow> (s, Inl (rethrow ''Failed to delete todo: '' err))
      | Inr _ \<Rightarrow>
         (case findIndex (\<lambda>t. todo_id t = i) (todos s) of
            None \<Rightarrow> (s, Inr False)
          | Some todoIndex \<Rightarrow>
             let s1 = s\<lparr>todos := take todoIndex (todos s) @ drop (Suc todoIndex) (todos s)\<rparr>
             in (case saveToStorage e s1 of
                   (s2, Inl err) \<Rightarrow> (s2, Inl (rethrow ''Failed to delete todo: '' err))
                 | (s2, Inr _) \<Rightarrow> (s2, Inr True))))"

definition deleteCompletedTodos :: "env \<Rightarrow> state \<Rightarrow> state \<times> (error + nat)" where
  "deleteCompletedTodos e s =
     (let initialLength = length (todos s);
          s1 = s\<lparr>todos := filter (\<lambda>t. \<not> completed t) (todos s)\<rparr>
      in (case saveToStorage e s1 of
            (s2, Inl err) \<Rightarrow> (s2, Inl (wrap ''Failed to delete completed todos: '' err))
          | (s2, Inr _) \<Rightarrow> (s2, Inr (initialLength - length (todos s2)))))"

definition setFilter :: "env \<Rightarrow> TodoFilter \<Rightarrow> state \<Rightarrow> state \<times> (error + unit)" where
  "setFilter e f s =
     (case saveFilterToStorage e (s\<lparr>currentFilter := f\<rparr>) of
        (s1, Inl err) \<Rightarrow> (s1, Inl (rethrow ''Failed to set filter: '' err))
      | (s1, Inr _) \<Rightarrow> (s1, Inr ()))"

definition getCurrentFilter :: "state \<Rightarrow> TodoFilter" where
  "getCurrentFilter s = currentFilter s"

definition clearAll :: "env \<Rightarrow> state \<Rightarrow> state \<times> (error + unit)" where
  "clearAll e s =
     (case saveToStorage e (s\<lparr>todos := []\<rparr>) of
        (s1, Inl err) \<Rightarrow> (s1, Inl (wrap ''Failed to clear all todos: '' err))
      | (s1, Inr _) \<Rightarrow> (s1, Inr ()))"

definition getTodosCount :: "state \<Rightarrow> nat" where
  "getTodosCount s = length (todos s)"

text \<open>The two \<^verbatim>\<open>removeItem\<close> calls of \<^verbatim>\<open>StorageUtils.clearAll\<close> succeed or fail together.\<close>

definition clearStorage :: "env \<Rightarrow> state \<Rightarrow> state \<times> (error + unit)" where
  "clearStorage e s =
     (if removeItem_ok e
      then (s\<lparr>todos := [], currentFilter := FilterAll, ls_todos := None, ls_filter := None\<rparr>, Inr ())
      else (s, Inl (StorageError (''Failed to clear storage: '' @ ''Failed to clear localStorage''))))"

section \<open>TodoList: export and import\<close>

text \<open>
  \<^verbatim>\<open>JSON.stringify(this.todos, null, 2)\<close> serialises a date through
  \<^verbatim>\<open>Date.prototype.toJSON\<close>: the ISO string of a valid date, \<^verbatim>\<open>null\<close> for an invalid one.
\<close>

fun toJSON :: "env \<Rightarrow> date \<Rightarrow> json" where
  "toJSON e (Date ms) = JString (toISOString e ms)"
| "toJSON e InvalidDate = JNull"

definition todo_json :: "env \<Rightarrow> Todo \<Rightarrow> json" where
  "todo_json e t =
     JObject [(js ''id'', JString (todo_id t)),
              (js ''text'', JString (todo_text t)),
              (js ''completed'', JBool (completed t)),
              (js ''createdAt'', toJSON e (createdAt t)),
              (js ''updatedAt'', toJSON e (updatedAt t))]"

definition exportTodos :: "env \<Rightarrow> state \<Rightarrow> json" where
  "exportTodos e s = JArray (map (todo_json e) (todos s))"

definition isValidTodo :: "json \<Rightarrow> bool" where
  "isValidTodo todo \<longleftrightarrow>
     typeof_object todo \<and> todo \<noteq> JNull \<and>
     typeof_string (getProp todo (js ''id'')) \<and>
     typeof_string (getProp todo (js ''text'')) \<and>
     typeof_boolean (getProp todo (js ''completed'')) \<and>
     typeof_string (getProp todo (js ''createdAt'')) \<and>
     typeof_string (getProp todo (js ''updatedAt''))"

definition revive :: "env \<Rightarrow> json \<Rightarrow> Todo" where
  "revive e todo =
     \<lparr>todo_id = the_string (getProp todo (js ''id'')),
      todo_text = the_string (getProp todo (js ''text'')),
      completed = the_boolean (getProp todo (js ''completed'')),
      createdAt = date_parse e (the_string (getProp todo (js ''createdAt''))),
      updatedAt = date_parse e (the_string (getProp todo (js ''updatedAt'')))\<rparr>"

text \<open>
  The argument is the outcome of \<^verbatim>\<open>JSON.parse(jsonString)\<close>: \<open>Inl m\<close> when it throws a
  SyntaxError with message \<open>m\<close>, \<open>Inr v\<close> when the text denotes \<open>v\<close>.  An imported record
  keeps the five fields of the \<^verbatim>\<open>Todo\<close> interface; further properties that the spread
  \<^verbatim>\<open>{...todo}\<close> would copy are not represented.
\<close>

definition importTodos :: "env \<Rightarrow> string + json \<Rightarrow> state \<Rightarrow> state \<times> (error + nat)" where
  "importTodos e parsed s =
     (case parsed of
        Inl m \<Rightarrow> (s, Inl (wrap ''Failed to import todos: '' (Error m)))
      | Inr (JArray importedTodos) \<Rightarrow>
          let validTodos = map (revive e) (filter isValidTodo importedTodos) in
          (case saveToStorage e (s\<lparr>todos := validTodos\<rparr>) of
             (s1, Inl err) \<Rightarrow> (s1, Inl (wrap ''Failed to import todos: '' err))
           | (s1, Inr _) \<Rightarrow> (s1, Inr (length validTodos)))
      | Inr _ \<Rightarrow>
          (s, Inl (wrap ''Failed to import todos: ''
                     (Error ''Invalid data format: expected an array of todos''))))"

section \<open>Notions used to state the properties\<close>

text \<open>
  The words of a string: its maximal runs of non-whitespace code units, from left to right;
  \<open>unwords\<close> joins words with single spaces.
\<close>

function ws_words :: "jsstring \<Rightarrow> jsstring list" where
  "ws_words s =
     (let r = dropWhile isWhiteSpace s
      in if r = [] then []
         else takeWhile (\<lambda>c. \<not> isWhiteSpace c) r # ws_words (dropWhile (\<lambda>c. \<not> isWhiteSpace c) r))"
  by pat_completeness auto
termination
proof (relation "measure length", goal_cases)
  case 1
  show ?case by simp
next
  case (2 s r)
  then obtain c cs where r: "dropWhile isWhiteSpace s = c # cs"
    by (cases "dropWhile isWhiteSpace s") auto
  then have "\<not> isWhiteSpace c"
    using hd_dropWhile [of isWhiteSpace s] by auto
  then have "length (dropWhile (\<lambda>c. \<not> isWhiteSpace c) r) \<le> length cs"
    using 2 r by (simp add: length_dropWhile_le)
  moreover have "length r \<le> length s"
    using 2 by (simp add: length_dropWhile_le)
  ultimately show ?case using 2 r by simp
qed

fun unwords :: "jsstring list \<Rightarrow> jsstring" where
  "unwords [] = []"
| "unwords [w] = w"
| "unwords (w # v # vs) = w @ SPACE # unwords (v # vs)"

text \<open>
  \<^verbatim>\<open>StorageUtils.saveTodos\<close> succeeds on a collection exactly when every timestamp in it is a
  valid date and the store accepts the write.
\<close>

definition datesValid :: "Todo \<Rightarrow> bool" where
  "datesValid t \<longleftrightarrow> isValidDate (createdAt t) \<and> isValidDate (updatedAt t)"

definition writable :: "env \<Rightarrow> Todo list \<Rightarrow> bool" where
  "writable e ts \<longleftrightarrow> list_all datesValid ts \<and> setItem_ok e"







text \<open>The message \<^verbatim>\<open>saveToStorage\<close> raises when \<^verbatim>\<open>StorageUtils.saveTodos\<close> fails.\<close>

definition saveFailure :: string where
  "saveFailure = ''Failed to save todos to storage: Failed to save todos to localStorage''"

text \<open>
  A timestamp survives export and import when it is a valid date and the importing
  platform parses the ISO string written by the exporting one back to the same time value
  (ECMAScript guarantees this of \<^verbatim>\<open>Date.parse\<close> and \<^verbatim>\<open>toISOString\<close> on one platform).
\<close>

definition reparses :: "env \<Rightarrow> env \<Rightarrow> date \<Rightarrow> bool" where
  "reparses e e' d =
     (case d of Date ms \<Rightarrow> date_parse e' (toISOString e ms) = Date ms | InvalidDate \<Rightarrow> False)"




section \<open>A stand-in platform for worked examples\<close>

text \<open>
  The examples need some concrete \<^verbatim>\<open>toISOString\<close> and date parser.  The stand-in writes a
  time value as its decimal number of milliseconds and parses exactly such numerals; any
  other string is unparseable, as \<^verbatim>\<open>new Date("soon")\<close> is on the real platform.
\<close>

fun digits10 :: "nat \<Rightarrow> jsstring" where
  "digits10 n =
     (if n < 10 then [of_nat (48 + n)] else digits10 (n div 10) @ [of_nat (48 + n mod 10)])"

definition stub_toISOString :: "int \<Rightarrow> jsstring" where
  "stub_toISOString ms = (if ms < 0 then 0x2D # digits10 (nat (- ms)) else digits10 (nat ms))"

fun parse10 :: "nat \<Rightarrow> jsstring \<Rightarrow> nat option" where
  "parse10 acc [] = Some acc"
| "parse10 acc (c # cs) =
     (if 0x30 \<le> c \<and> c \<le> 0x39 then parse10 (10 * acc + (unat c - 48)) cs else None)"

definition stub_date_parse :: "jsstring \<Rightarrow> date" where
  "stub_date_parse s =
     (case s of
        [] \<Rightarrow> InvalidDate
      | c # cs \<Rightarrow>
          if c = 0x2D
          then (case cs of
                  [] \<Rightarrow> InvalidDate
                | _ # _ \<Rightarrow> (case parse10 0 cs of Some n \<Rightarrow> Date (- int n) | None \<Rightarrow> InvalidDate))
          else (case parse10 0 s of Some n \<Rightarrow> Date (int n) | None \<Rightarrow> InvalidDate))"

text \<open>
  The worked examples run at clock reading 1000 with the random digits \<^verbatim>\<open>k3x\<close> (so the
  generated id is \<^verbatim>\<open>rsk3x\<close>) on a store that accepts writes; variations are record updates
  of \<open>env0\<close>.
\<close>

definition env0 :: env where
  "env0 = \<lparr>date_now = 1000, random36 = js ''k3x'', new_date1 = 1000, new_date2 = 1000,
           setItem_ok = True, removeItem_ok = True,
           toISOString = stub_toISOString, date_parse = stub_date_parse\<rparr>"

definition state0 :: state where
  "state0 = \<lparr>todos = [], currentFilter = FilterAll, ls_todos = None, ls_filter = None\<rparr>"

definition state_two :: state where
  "state_two =
     \<lparr>todos = [\<lparr>todo_id = js ''a'', todo_text = js ''Buy milk'', completed = True,
                 createdAt = Date 100, updatedAt = Date 200\<rparr>,
               \<lparr>todo_id = js ''b'', todo_text = js ''Walk dog'', completed = False,
                 createdAt = Date 300, updatedAt = Date 300\<rparr>],
      currentFilter = FilterPending, ls_todos = None, ls_filter = None\<rparr>"

text \<open>
  Texts given to \<^verbatim>\<open>importTodos\<close>, and the states the import leaves behind when applied to
  the empty state: a record whose dates do not parse (the import raises on the failed write,
  after installing the records), a record dated ahead of the clock, a record with the empty
  id, and two records that share an id, have an empty text and were updated before they
  were created.
\<close>

definition json_entry :: "string \<Rightarrow> string \<Rightarrow> bool \<Rightarrow> string \<Rightarrow> string \<Rightarrow> json" where
  "json_entry i t c ca ua =
     JObject [(js ''id'', JString (js i)), (js ''text'', JString (js t)), (js ''completed'', JBool c),
              (js ''createdAt'', JString (js ca)), (js ''updatedAt'', JString (js ua))]"

definition undated_payload :: json where
  "undated_payload =
     JArray [json_entry ''a'' ''Buy milk'' False ''soon'' ''soon'',
             json_entry ''b'' ''Walk dog'' True ''1000'' ''1000'']"

definition state_undated :: state where
  "state_undated =
     \<lparr>todos = [\<lparr>todo_id = js ''a'', todo_text = js ''Buy milk'', completed = False,
                 createdAt = InvalidDate, updatedAt = InvalidDate\<rparr>,
               \<lparr>todo_id = js ''b'', todo_text = js ''Walk dog'', completed = True,
                 createdAt = Date 1000, updatedAt = Date 1000\<rparr>],
      currentFilter = FilterAll, ls_todos = None, ls_filter = None\<rparr>"

definition future_payload :: json where
  "future_payload = JArray [json_entry ''a'' ''Buy milk'' False ''5000'' ''5000'']"

definition state_future :: state where
  "state_future =
     \<lparr>todos = [\<lparr>todo_id = js ''a'', todo_text = js ''Buy milk'', completed = False,
                 createdAt = Date 5000, updatedAt = Date 5000\<rparr>],
      currentFilter = FilterAll, ls_todos = Some future_payload, ls_filter = None\<rparr>"

definition blank_payload :: json where
  "blank_payload = JArray [json_entry [] ''Buy milk'' False ''1000'' ''1000'']"

definition state_blank :: state where
  "state_blank =
     \<lparr>todos = [\<lparr>todo_id = [], todo_text = js ''Buy milk'', completed = False,
                 createdAt = Date 1000, updatedAt = Date 1000\<rparr>],
      currentFilter = FilterAll, ls_todos = Some blank_payload, ls_filter = None\<rparr>"


section \<open>Rules for evaluating the worked examples\<close>

lemmas example_defs =
  js_def env0_def state0_def json_entry_def state_two_def state_undated_def undated_payload_def
  state_future_def future_payload_def state_blank_def blank_payload_def
  stub_toISOString_def stub_date_parse_def saveFailure_def

lemmas run_defs =
  isWhiteSpace_def SPACE_def trim_def validateTodoText_def sanitizeTodoText_def validateId_def
  generateId_def toString36_def digit36_def rethrow_def wrap_def
  saveTodos_def saveFilter_def saveToStorage_def saveFilterToStorage_def todo_entry_def
  addTodo_def getTodoById_def updateTodo_def toggleTodo_def deleteTodo_def
  deleteCompletedTodos_def setFilter_def clearAll_def clearStorage_def
  todo_json_def exportTodos_def isValidTodo_def revive_def importTodos_def
  writable_def datesValid_def getTodosCount_def getCurrentFilter_def Let_def

section \<open>Trimming and whitespace collapsing\<close>

lemmas [simp del] = ws_words.simps


lemma all_dropWhile_iff: "(\<forall>x\<in>set (dropWhile P s). P x) \<longleftrightarrow> (\<forall>x\<in>set s. P x)"
  by (induction s) auto

lemma trim_Nil_iff: "trim s = [] \<longleftrightarrow> list_all isWhiteSpace s"
  by (simp add: trim_def list_all_iff all_dropWhile_iff)


lemma replace_nonws_prefix:
  "list_all (\<lambda>c. \<not> isWhiteSpace c) a \<Longrightarrow> replace_ws_runs (a @ b) = a @ replace_ws_runs b"
  by (induction a) auto




lemma ws_words_dropWhile: "ws_words (dropWhile isWhiteSpace s) = ws_words s"
  using ws_words.simps [of s] ws_words.simps [of "dropWhile isWhiteSpace s"]
  by simp

lemma ws_words_all_ws: "list_all isWhiteSpace s \<Longrightarrow> ws_words s = []"
  using ws_words.simps [of s] by (simp add: list_all_iff)

lemma ws_words_Nil [simp]: "ws_words [] = []"
  by (simp add: ws_words.simps)

lemma last_dropWhile_ne: "dropWhile P xs \<noteq> [] \<Longrightarrow> last (dropWhile P xs) = last xs"
  by (induction xs) (auto split: if_splits)

lemma replace_words:
  assumes "t = [] \<or> \<not> isWhiteSpace (hd t)" and "t = [] \<or> \<not> isWhiteSpace (last t)"
  shows "replace_ws_runs t = unwords (ws_words t)"
  using assms
proof (induction t rule: length_induct)
  case (1 t)
  show ?case
  proof (cases "t = []")
    case True
    then show ?thesis by simp
  next
    case False
    let ?N = "\<lambda>c. \<not> isWhiteSpace c"
    define w where "w = takeWhile ?N t"
    define r where "r = dropWhile ?N t"
    have t: "t = w @ r" by (simp add: w_def r_def)
    have hd: "\<not> isWhiteSpace (hd t)" and lst: "\<not> isWhiteSpace (last t)"
      using False 1 by auto
    have dw: "dropWhile isWhiteSpace t = t" using False hd by (cases t) auto
    have allw: "list_all ?N w"
      by (auto simp: w_def list_all_iff dest: set_takeWhileD)
    have rep: "replace_ws_runs t = w @ replace_ws_runs r"
      using replace_nonws_prefix [OF allw, of r] t by simp
    have words_t: "ws_words t = w # ws_words r"
      using ws_words.simps [of t] dw False by (simp add: w_def r_def)
    show ?thesis
    proof (cases r)
      case Nil
      then show ?thesis using rep words_t by simp
    next
      case (Cons c cs)
      have "dropWhile ?N t \<noteq> []" using Cons r_def by simp
      from hd_dropWhile [OF this] have wsc: "isWhiteSpace c"
        using Cons r_def by simp
      define t' where "t' = dropWhile isWhiteSpace r"
      have t'cs: "t' = dropWhile isWhiteSpace cs" using Cons wsc by (simp add: t'_def)
      have last_r: "last r = last t" using t Cons by (metis last_appendR list.distinct(1))
      have t'ne: "t' \<noteq> []"
      proof
        assume "t' = []"
        then have "\<forall>x\<in>set r. isWhiteSpace x" by (simp add: t'_def)
        then have "isWhiteSpace (last r)" using Cons by (metis last_in_set list.distinct(1))
        with last_r lst show False by simp
      qed
      have last_t': "last t' = last t"
        using last_dropWhile_ne [of isWhiteSpace r] t'ne last_r by (simp add: t'_def)
      have hd_t': "\<not> isWhiteSpace (hd t')"
        using hd_dropWhile [of isWhiteSpace r] t'ne by (simp add: t'_def)
      have len: "length t' < length t"
      proof -
        have "length t' \<le> length cs" by (simp add: t'cs length_dropWhile_le)
        moreover have "length r \<le> length t" by (simp add: r_def length_dropWhile_le)
        ultimately show ?thesis using Cons by simp
      qed
      have IH: "replace_ws_runs t' = unwords (ws_words t')"
        using 1(1) len hd_t' last_t' lst by auto
      have wr: "ws_words r = ws_words t'"
        by (simp add: t'_def ws_words_dropWhile)
      have "ws_words t' \<noteq> []"
        using ws_words.simps [of t'] t'ne hd_t' by (cases t') auto
      then obtain v vs where vvs: "ws_words t' = v # vs" by (cases "ws_words t'") auto
      have "replace_ws_runs r = SPACE # replace_ws_runs t'"
        using Cons wsc by (simp add: t'cs)
      then show ?thesis using rep words_t wr IH vvs by simp
    qed
  qed
qed

lemma ws_words_append_ws:
  "list_all isWhiteSpace w \<Longrightarrow> ws_words (a @ w) = ws_words a"
proof (induction a rule: length_induct)
  case (1 a)
  let ?N = "\<lambda>c. \<not> isWhiteSpace c"
  show ?case
  proof (cases "list_all isWhiteSpace a")
    case True
    with 1(2) have "list_all isWhiteSpace (a @ w)" by simp
    then show ?thesis using True by (simp only: ws_words_all_ws)
  next
    case False
    define r where "r = dropWhile isWhiteSpace a"
    have rne: "r \<noteq> []" using False by (simp add: r_def list_all_iff)
    have hdr: "\<not> isWhiteSpace (hd r)" using hd_dropWhile [of isWhiteSpace a] rne by (simp add: r_def)
    have d1: "dropWhile isWhiteSpace (a @ w) = r @ w"
      using False by (auto simp: r_def dropWhile_append list_all_iff)
    have tw: "takeWhile ?N w = []" and dwn: "dropWhile ?N w = w"
      using 1(2) by (cases w; simp)+
    have wa: "ws_words a = takeWhile ?N r # ws_words (dropWhile ?N r)"
      using ws_words.simps [of a] rne by (simp add: r_def Let_def)
    have waw: "ws_words (a @ w) = takeWhile ?N (r @ w) # ws_words (dropWhile ?N (r @ w))"
      using ws_words.simps [of "a @ w"] rne d1 by (simp add: Let_def)
    show ?thesis
    proof (cases "list_all ?N r")
      case True
      then have allr: "\<forall>x\<in>set r. \<not> isWhiteSpace x" by (simp add: list_all_iff)
      have e1: "takeWhile ?N (r @ w) = r" and e2: "dropWhile ?N (r @ w) = w"
        using allr tw dwn by (simp_all add: takeWhile_append dropWhile_append)
      have e3: "takeWhile ?N r = r" and e4: "dropWhile ?N r = []"
        using allr by simp_all
      have "ws_words (a @ w) = [r]"
        using waw 1(2) by (simp only: e1 e2 ws_words_all_ws)
      moreover have "ws_words a = [r]"
        using wa by (simp only: e3 e4 ws_words_Nil)
      ultimately show ?thesis by simp
    next
      case F2: False
      then have e: "takeWhile ?N (r @ w) = takeWhile ?N r"
        "dropWhile ?N (r @ w) = dropWhile ?N r @ w"
        by (auto simp add: takeWhile_append dropWhile_append list_all_iff)
      have "length (dropWhile ?N r) < length a"
      proof -
        obtain c cs where r: "r = c # cs" using rne by (cases r) auto
        then have "dropWhile ?N r = dropWhile ?N cs" using hdr by simp
        moreover have "length (dropWhile ?N cs) \<le> length cs" by (rule length_dropWhile_le)
        moreover have "length r \<le> length a" by (simp add: r_def length_dropWhile_le)
        ultimately show ?thesis using r by simp
      qed
      then have "ws_words (dropWhile ?N r @ w) = ws_words (dropWhile ?N r)"
        using 1 by blast
      then show ?thesis using wa waw e by simp
    qed
  qed
qed

lemma rtrim_decomp: "\<exists>w. list_all isWhiteSpace w \<and> s = rev (dropWhile isWhiteSpace (rev s)) @ w"
proof -
  have "rev s = takeWhile isWhiteSpace (rev s) @ dropWhile isWhiteSpace (rev s)" by simp
  then have "s = rev (dropWhile isWhiteSpace (rev s)) @ rev (takeWhile isWhiteSpace (rev s))"
    by (metis rev_append rev_rev_ident)
  moreover have "list_all isWhiteSpace (rev (takeWhile isWhiteSpace (rev s)))"
    by (auto simp: list_all_iff dest: set_takeWhileD)
  ultimately show ?thesis by blast
qed

lemma ws_words_trim: "ws_words (trim s) = ws_words s"
proof -
  obtain w where w: "list_all isWhiteSpace w"
    and d: "dropWhile isWhiteSpace s = trim s @ w"
    using rtrim_decomp [of "dropWhile isWhiteSpace s"] by (auto simp: trim_def)
  have "ws_words s = ws_words (dropWhile isWhiteSpace s)" by (simp add: ws_words_dropWhile)
  also have "\<dots> = ws_words (trim s)" using d w by (simp add: ws_words_append_ws)
  finally show ?thesis by simp
qed

lemma trim_no_lead: "trim s = [] \<or> \<not> isWhiteSpace (hd (trim s))"
proof (cases "trim s = []")
  case True then show ?thesis by simp
next
  case False
  define d where "d = dropWhile isWhiteSpace s"
  have tr: "trim s = rev (dropWhile isWhiteSpace (rev d))" by (simp add: trim_def d_def)
  obtain w where w: "d = trim s @ w" using rtrim_decomp [of d] tr by auto
  then have "hd d = hd (trim s)" using False by simp
  moreover have "d \<noteq> []" using w False by auto
  then have "\<not> isWhiteSpace (hd d)" using hd_dropWhile [of isWhiteSpace s] by (simp add: d_def)
  ultimately show ?thesis by simp
qed

lemma trim_no_trail: "trim s = [] \<or> \<not> isWhiteSpace (last (trim s))"
proof (cases "trim s = []")
  case True then show ?thesis by simp
next
  case False
  define d where "d = dropWhile isWhiteSpace (rev (dropWhile isWhiteSpace s))"
  have "d \<noteq> []" using False by (simp add: trim_def d_def)
  then have "\<not> isWhiteSpace (hd d)" unfolding d_def by (rule hd_dropWhile)
  moreover have "last (trim s) = hd d" using \<open>d \<noteq> []\<close> by (simp add: trim_def d_def last_rev)
  ultimately show ?thesis by simp
qed

lemma sanitize_words: "sanitizeTodoText text = unwords (ws_words text)"
  using replace_words [OF trim_no_lead trim_no_trail, of "text"]
  by (simp add: sanitizeTodoText_def ws_words_trim)


section \<open>Validation and persistence\<close>

lemma saveToStorage_ok:
  "writable e (todos s) \<Longrightarrow>
   saveToStorage e s = (s\<lparr>ls_todos := Some (JArray (map (todo_entry e) (todos s)))\<rparr>, Inr ())"
  by (simp add: saveToStorage_def saveTodos_def writable_def datesValid_def [abs_def])

lemma saveToStorage_fail:
  "\<not> writable e (todos s) \<Longrightarrow>
   saveToStorage e s =
     (s, Inl (StorageError ''Failed to save todos to storage: Failed to save todos to localStorage''))"
  by (simp add: saveToStorage_def saveTodos_def writable_def datesValid_def [abs_def])

lemma saveToStorage_cases:
  "saveToStorage e s =
     (if writable e (todos s)
      then (s\<lparr>ls_todos := Some (JArray (map (todo_entry e) (todos s)))\<rparr>, Inr ())
      else (s, Inl (StorageError saveFailure)))"
  by (simp add: saveToStorage_ok saveToStorage_fail saveFailure_def)

lemma validateTodoText_ok:
  "trim text \<noteq> [] \<Longrightarrow> length (trim text) \<le> 200 \<Longrightarrow> validateTodoText text = Inr ()"
  by (auto simp: validateTodoText_def trim_def)

lemma validateTodoText_bad:
  "text = [] \<or> list_all isWhiteSpace text \<or> 200 < length (trim text) \<Longrightarrow>
   \<exists>m. validateTodoText text = Inl (ValidationError m)"
  by (auto simp: validateTodoText_def trim_Nil_iff)


lemma validateId_ok: "trim i \<noteq> [] \<Longrightarrow> validateId i = Inr ()"
  by (auto simp: validateId_def trim_def)

section \<open>Looking a record up\<close>

lemma findIndex_None_iff: "findIndex P xs = None \<longleftrightarrow> (\<forall>x\<in>set xs. \<not> P x)"
  by (induction xs) auto

lemma findIndex_Some:
  "findIndex P xs = Some k \<Longrightarrow> k < length xs \<and> P (xs ! k) \<and> (\<forall>j<k. \<not> P (xs ! j))"
proof (induction xs arbitrary: k)
  case Nil
  then show ?case by simp
next
  case (Cons x xs)
  show ?case
  proof (cases "P x")
    case True
    with Cons.prems show ?thesis by simp
  next
    case False
    with Cons.prems obtain k' where k': "findIndex P xs = Some k'" "k = Suc k'"
      by auto
    from Cons.IH [OF k'(1)] False k'(2) show ?thesis
      by (auto simp: less_Suc_eq_0_disj)
  qed
qed


lemma findIndex_present:
  "i \<in> todo_id ` set ts \<Longrightarrow> \<exists>k. findIndex (\<lambda>t. todo_id t = i) ts = Some k"
  using findIndex_None_iff [of "\<lambda>t. todo_id t = i" ts] by (cases "findIndex (\<lambda>t. todo_id t = i) ts") auto

lemma first_index:
  assumes "i \<in> todo_id ` set ts"
  obtains k where "findIndex (\<lambda>t. todo_id t = i) ts = Some k" and "k < length ts"
    and "todo_id (ts ! k) = i" and "\<forall>j<k. todo_id (ts ! j) \<noteq> i"
proof -
  from findIndex_present [OF assms] obtain k where k: "findIndex (\<lambda>t. todo_id t = i) ts = Some k" ..
  from findIndex_Some [OF k] k that show ?thesis by blast
qed

lemma find_findIndex:
  "find P xs = (case findIndex P xs of None \<Rightarrow> None | Some k \<Rightarrow> Some (xs ! k))"
  by (induction xs) (auto split: option.splits)

lemma findIndex_map_id:
  "findIndex (\<lambda>t. todo_id t = i) ts = findIndex (\<lambda>x. x = i) (map todo_id ts)"
  by (induction ts) auto

lemma findIndex_same_ids:
  "map todo_id ts' = map todo_id ts \<Longrightarrow>
   findIndex (\<lambda>t. todo_id t = i) ts' = findIndex (\<lambda>t. todo_id t = i) ts"
  by (simp add: findIndex_map_id [of i ts] findIndex_map_id [of i ts'])

lemma map_id_update:
  "todo_id t = todo_id (ts ! k) \<Longrightarrow> map todo_id (ts[k := t]) = map todo_id ts"
  by (metis map_update list_update_id)

section \<open>The operations on a found record\<close>

lemma deleteCompletedTodos_cases:
  "deleteCompletedTodos e s =
     (let s1 = s\<lparr>todos := filter (\<lambda>t. \<not> completed t) (todos s)\<rparr>
      in if writable e (todos s1)
         then (s1\<lparr>ls_todos := Some (JArray (map (todo_entry e) (todos s1)))\<rparr>,
               Inr (length (todos s) - length (todos s1)))
         else (s1, Inl (Error (''Failed to delete completed todos: '' @ saveFailure))))"
  by (simp add: deleteCompletedTodos_def saveToStorage_cases wrap_def Let_def)

lemma count_removed:
  "length xs - length (filter (\<lambda>t. \<not> P t) xs) = length (filter P xs)"
  using sum_length_filter_compl [of P xs] by simp

lemma deleteTodo_absent:
  "trim i \<noteq> [] \<Longrightarrow> i \<notin> todo_id ` set (todos s) \<Longrightarrow> deleteTodo e i s = (s, Inr False)"
proof -
  assume v: "trim i \<noteq> []" and a: "i \<notin> todo_id ` set (todos s)"
  from a have "findIndex (\<lambda>t. todo_id t = i) (todos s) = None"
    by (auto simp: findIndex_None_iff)
  then show ?thesis by (simp add: deleteTodo_def validateId_ok [OF v])
qed

lemma deleteTodo_found:
  "trim i \<noteq> [] \<Longrightarrow> findIndex (\<lambda>t. todo_id t = i) (todos s) = Some k \<Longrightarrow>
   deleteTodo e i s =
     (let s1 = s\<lparr>todos := take k (todos s) @ drop (Suc k) (todos s)\<rparr>
      in if writable e (todos s1)
         then (s1\<lparr>ls_todos := Some (JArray (map (todo_entry e) (todos s1)))\<rparr>, Inr True)
         else (s1, Inl (Error (''Failed to delete todo: '' @ saveFailure))))"
  by (simp add: deleteTodo_def validateId_ok saveToStorage_cases rethrow_def Let_def)

lemma rebuild_Todo:
  "\<lparr>todo_id = todo_id t, todo_text = todo_text t, completed = c, createdAt = createdAt t,
    updatedAt = d\<rparr> = t\<lparr>completed := c, updatedAt := d\<rparr>"
  by (cases t) simp

lemma updateTodo_found:
  assumes "trim i \<noteq> []" and "findIndex (\<lambda>t. todo_id t = i) (todos s) = Some k"
    and "u_text u = None"
  shows "updateTodo e i u s =
     (let upd = (todos s ! k)\<lparr>completed := (case u_completed u of Some c \<Rightarrow> c
                                               | None \<Rightarrow> completed (todos s ! k)),
                               updatedAt := Date (new_date1 e)\<rparr>;
          s1 = s\<lparr>todos := (todos s)[k := upd]\<rparr>
      in if writable e (todos s1)
         then (s1\<lparr>ls_todos := Some (JArray (map (todo_entry e) (todos s1)))\<rparr>, Inr (Some upd))
         else (s1, Inl (Error (''Failed to update todo: '' @ saveFailure))))"
  using assms
  by (simp add: updateTodo_def validateId_ok saveToStorage_cases rethrow_def Let_def rebuild_Todo)

lemma updateTodo_found_any:
  assumes "trim i \<noteq> []" and "findIndex (\<lambda>t. todo_id t = i) (todos s) = Some k"
    and "case u_text u of None \<Rightarrow> True | Some txt \<Rightarrow> trim txt \<noteq> [] \<and> length (trim txt) \<le> 200"
  shows "updateTodo e i u s =
     (let upd = (todos s ! k)\<lparr>todo_text := (case u_text u of Some txt \<Rightarrow> sanitizeTodoText txt
                                              | None \<Rightarrow> todo_text (todos s ! k)),
                               completed := (case u_completed u of Some c \<Rightarrow> c
                                             | None \<Rightarrow> completed (todos s ! k)),
                               updatedAt := Date (new_date1 e)\<rparr>;
          s1 = s\<lparr>todos := (todos s)[k := upd]\<rparr>
      in if writable e (todos s1)
         then (s1\<lparr>ls_todos := Some (JArray (map (todo_entry e) (todos s1)))\<rparr>, Inr (Some upd))
         else (s1, Inl (Error (''Failed to update todo: '' @ saveFailure))))"
proof -
  have r: "\<lparr>todo_id = todo_id t, todo_text = x, completed = c, createdAt = createdAt t,
            updatedAt = d\<rparr> = t\<lparr>todo_text := x, completed := c, updatedAt := d\<rparr>" for t x c d
    by (cases t) simp
  have v: "(case u_text u of None \<Rightarrow> Inr () | Some txt \<Rightarrow> validateTodoText txt) = Inr ()"
    using assms(3) by (cases "u_text u") (simp_all add: validateTodoText_ok)
  show ?thesis
    using assms(1,2)
    by (simp add: updateTodo_def validateId_ok v saveToStorage_cases rethrow_def Let_def r)
qed

lemma toggleTodo_found:
  assumes "trim i \<noteq> []" and "findIndex (\<lambda>t. todo_id t = i) (todos s) = Some k"
  shows "toggleTodo e i s =
     (let upd = (todos s ! k)\<lparr>completed := \<not> completed (todos s ! k),
                               updatedAt := Date (new_date1 e)\<rparr>;
          s1 = s\<lparr>todos := (todos s)[k := upd]\<rparr>
      in if writable e (todos s1)
         then (s1\<lparr>ls_todos := Some (JArray (map (todo_entry e) (todos s1)))\<rparr>, Inr (Some upd))
         else (s1, Inl (Error (''Failed to toggle todo: '' @ ''Failed to update todo: '' @ saveFailure))))"
proof -
  have g: "getTodoById i s = Inr (Some (todos s ! k))"
    using assms by (simp add: getTodoById_def validateId_ok find_findIndex)
  show ?thesis
    by (simp add: toggleTodo_def validateId_ok [OF assms(1)] g
        updateTodo_found [OF assms, where u = "\<lparr>u_text = None, u_completed = Some (\<not> completed (todos s ! k))\<rparr>"]
        rethrow_def Let_def)
qed

lemma importTodos_array:
  "importTodos e (Inr (JArray xs)) s =
     (let s1 = s\<lparr>todos := map (revive e) (filter isValidTodo xs)\<rparr>
      in if writable e (todos s1)
         then (s1\<lparr>ls_todos := Some (JArray (map (todo_entry e) (todos s1)))\<rparr>,
               Inr (length (todos s1)))
         else (s1, Inl (Error (''Failed to import todos: '' @ saveFailure))))"
  by (simp add: importTodos_def saveToStorage_cases wrap_def Let_def)

lemma import_undated:
  "importTodos env0 (Inr undated_payload) state0 =
     (state_undated, Inl (Error (''Failed to import todos: '' @ saveFailure)))"
  by (simp add: example_defs run_defs)

lemma import_future: "importTodos env0 (Inr future_payload) state0 = (state_future, Inr 1)"
  by (simp add: example_defs run_defs)

lemma import_blank: "importTodos env0 (Inr blank_payload) state0 = (state_blank, Inr 1)"
  by (simp add: example_defs run_defs)

section \<open>Adding a record\<close>

text \<open>
  C1 (as amended).  For every input string whose trimmed form is non-empty and at most 200
  code units long, \<^verbatim>\<open>addTodo\<close> appends one new record at the end of the collection.  Its
  text is the input with leading and trailing whitespace removed and every whitespace run
  between words replaced by one space (the words of the input joined by single spaces),
  its completed flag is false, and its \<^verbatim>\<open>createdAt\<close> and \<^verbatim>\<open>updatedAt\<close> are the readings of the
  two successive \<^verbatim>\<open>new Date()\<close> calls, hence equal exactly when the clock did not advance
  between them.  The call returns that record whenever the persistence write succeeds.
\<close>

theorem addTodo_valid_text:
  assumes "trim text \<noteq> []" and "length (trim text) \<le> 200"
  shows "\<exists>t. todos (fst (addTodo e text s)) = todos s @ [t] \<and>
            todo_id t = generateId e \<and>
            todo_text t = unwords (ws_words text) \<and>
            completed t = False \<and>
            createdAt t = Date (new_date1 e) \<and>
            updatedAt t = Date (new_date2 e) \<and>
            (createdAt t = updatedAt t \<longleftrightarrow> new_date1 e = new_date2 e) \<and>
            (writable e (todos s @ [t]) \<longrightarrow> snd (addTodo e text s) = Inr t)"
proof -
  let ?t = "\<lparr>todo_id = generateId e, todo_text = sanitizeTodoText text, completed = False,
             createdAt = Date (new_date1 e), updatedAt = Date (new_date2 e)\<rparr>"
  let ?s1 = "s\<lparr>todos := todos s @ [?t]\<rparr>"
  have v: "validateTodoText text = Inr ()"
    using assms by (rule validateTodoText_ok)
  have a: "addTodo e text s =
      (case saveToStorage e ?s1 of
         (s2, Inl err) \<Rightarrow> (s2, Inl (rethrow ''Failed to add todo: '' err))
       | (s2, Inr _) \<Rightarrow> (s2, Inr ?t))"
    by (simp add: addTodo_def v Let_def)
  have mem: "todos (fst (addTodo e text s)) = todos s @ [?t]"
    by (cases "writable e (todos ?s1)") (simp_all add: a saveToStorage_ok saveToStorage_fail)
  have ret: "writable e (todos s @ [?t]) \<Longrightarrow> snd (addTodo e text s) = Inr ?t"
    by (simp add: a saveToStorage_ok)
  show ?thesis
    using mem ret by (intro exI [of _ ?t]) (simp add: sanitize_words)
qed

theorem addTodo_valid_text_witness:
  "trim (js ''  Buy   milk '') \<noteq> [] \<and> length (trim (js ''  Buy   milk '')) \<le> 200 \<and>
   todos (fst (addTodo env0 (js ''  Buy   milk '') state0)) =
     [\<lparr>todo_id = js ''rsk3x'', todo_text = js ''Buy milk'', completed = False,
       createdAt = Date 1000, updatedAt = Date 1000\<rparr>]"
proof -
  have h1: "trim (js ''  Buy   milk '') \<noteq> []"
    by (simp add: js_def trim_def isWhiteSpace_def)
  have h2: "length (trim (js ''  Buy   milk '')) \<le> 200"
    by (simp add: js_def trim_def isWhiteSpace_def)
  have g: "generateId env0 = js ''rsk3x''"
    by (simp add: example_defs run_defs)
  have w: "unwords (ws_words (js ''  Buy   milk '')) = js ''Buy milk''"
    by (simp add: js_def ws_words.simps isWhiteSpace_def SPACE_def)
  from addTodo_valid_text [OF h1 h2, of env0 state0]
  obtain t where t: "todos (fst (addTodo env0 (js ''  Buy   milk '') state0)) = todos state0 @ [t]"
    "todo_id t = generateId env0" "todo_text t = unwords (ws_words (js ''  Buy   milk ''))"
    "completed t = False" "createdAt t = Date (new_date1 env0)" "updatedAt t = Date (new_date2 env0)"
    by blast
  have "t = \<lparr>todo_id = js ''rsk3x'', todo_text = js ''Buy milk'', completed = False,
       createdAt = Date 1000, updatedAt = Date 1000\<rparr>"
    using t(2-6) g w by (cases t) (simp add: env0_def)
  then show ?thesis using h1 h2 t(1) by (simp add: state0_def)
qed

text \<open>
  Equality of the two timestamps and success on every valid text both fail: when the clock
  ticks between the two \<^verbatim>\<open>new Date()\<close> calls the timestamps differ, and when the store
  refuses the write the call raises.
\<close>

theorem addTodo_valid_text_counterexample:
  "trim (js ''milk'') \<noteq> [] \<and> length (trim (js ''milk'')) \<le> 200 \<and>
   snd (addTodo (env0\<lparr>new_date2 := 1001\<rparr>) (js ''milk'') state0) =
     Inr \<lparr>todo_id = js ''rsk3x'', todo_text = js ''milk'', completed = False,
          createdAt = Date 1000, updatedAt = Date 1001\<rparr> \<and>
   Date 1000 \<noteq> Date 1001 \<and>
   snd (addTodo (env0\<lparr>setItem_ok := False\<rparr>) (js ''milk'') state0) =
     Inl (Error ''Failed to add todo: Failed to save todos to storage: Failed to save todos to localStorage'')"
  by (simp add: example_defs run_defs)

text \<open>
  C5.  For every input string that is empty, consists of whitespace only, or is longer than
  200 code units after trimming, \<^verbatim>\<open>addTodo\<close> fails with a ValidationError and leaves the
  whole state as it was: the collection (its length and its records) and the stored entry,
  so nothing was written.
\<close>

theorem addTodo_invalid_text:
  assumes "text = [] \<or> list_all isWhiteSpace text \<or> 200 < length (trim text)"
  shows "\<exists>m. addTodo e text s = (s, Inl (ValidationError m))"
proof -
  from validateTodoText_bad [OF assms] obtain m
    where "validateTodoText text = Inl (ValidationError m)" ..
  then have "addTodo e text s = (s, Inl (ValidationError m))"
    by (simp add: addTodo_def rethrow_def)
  then show ?thesis ..
qed

theorem addTodo_invalid_text_witness:
  "list_all isWhiteSpace (js ''   '') \<and>
   addTodo env0 (js ''   '') state0 = (state0, Inl (ValidationError ''Todo text cannot be empty''))"
proof -
  have ws: "list_all isWhiteSpace (js ''   '')"
    by (simp add: js_def isWhiteSpace_def)
  then have "\<exists>m. addTodo env0 (js ''   '') state0 = (state0, Inl (ValidationError m))"
    by (intro addTodo_invalid_text) simp
  moreover have "snd (addTodo env0 (js ''   '') state0) = Inl (ValidationError ''Todo text cannot be empty'')"
    by (simp add: example_defs run_defs)
  ultimately show ?thesis using ws by auto
qed

section \<open>Updating and toggling a record\<close>




text \<open>
  C6 (as amended).  For every id that is non-empty after trimming and is the id of a record
  in the collection, \<^verbatim>\<open>toggleTodo\<close> flips the completed flag of the first record with that
  id and sets its \<^verbatim>\<open>updatedAt\<close> to the current clock reading, which is greater than or equal
  to the prior \<^verbatim>\<open>updatedAt\<close> whenever the clock reading is not earlier than it; every other
  record stays as it was.  Toggling twice in succession with the same id returns that
  record's completed flag to its original value.
\<close>

theorem toggleTodo_effect:
  assumes "trim i \<noteq> []" and "i \<in> todo_id ` set (todos s)"
  shows "\<exists>k<length (todos s).
           todo_id (todos s ! k) = i \<and> (\<forall>j<k. todo_id (todos s ! j) \<noteq> i) \<and>
           todos (fst (toggleTodo e i s)) =
             (todos s)[k := (todos s ! k)\<lparr>completed := \<not> completed (todos s ! k),
                                          updatedAt := Date (new_date1 e)\<rparr>] \<and>
           (\<forall>p. updatedAt (todos s ! k) = Date p \<and> p \<le> new_date1 e \<longrightarrow>
                date_ge (updatedAt (todos (fst (toggleTodo e i s)) ! k)) (updatedAt (todos s ! k))) \<and>
           completed (todos (fst (toggleTodo e' i (fst (toggleTodo e i s)))) ! k) =
             completed (todos s ! k)"
proof -
  from assms(2) obtain k where k: "findIndex (\<lambda>t. todo_id t = i) (todos s) = Some k"
    and lt: "k < length (todos s)" and idk: "todo_id (todos s ! k) = i"
    and first: "\<forall>j<k. todo_id (todos s ! j) \<noteq> i"
    by (rule first_index)
  let ?upd = "(todos s ! k)\<lparr>completed := \<not> completed (todos s ! k), updatedAt := Date (new_date1 e)\<rparr>"
  let ?s' = "fst (toggleTodo e i s)"
  have mem: "todos ?s' = (todos s)[k := ?upd]"
    by (simp add: toggleTodo_found [OF assms(1) k] Let_def)
  have at_k: "todos ?s' ! k = ?upd"
    using lt by (simp add: mem)
  have ids: "map todo_id (todos ?s') = map todo_id (todos s)"
    by (simp add: mem map_id_update)
  have k': "findIndex (\<lambda>t. todo_id t = i) (todos ?s') = Some k"
    using findIndex_same_ids [OF ids] k by simp
  have mem2: "todos (fst (toggleTodo e' i ?s')) =
      (todos ?s')[k := (todos ?s' ! k)\<lparr>completed := \<not> completed (todos ?s' ! k),
                                        updatedAt := Date (new_date1 e')\<rparr>]"
    by (simp add: toggleTodo_found [OF assms(1) k'] Let_def)
  have twice: "completed (todos (fst (toggleTodo e' i ?s')) ! k) = completed (todos s ! k)"
    using lt by (simp add: mem2 at_k mem)
  have later: "\<forall>p. updatedAt (todos s ! k) = Date p \<and> p \<le> new_date1 e \<longrightarrow>
      date_ge (updatedAt (todos ?s' ! k)) (updatedAt (todos s ! k))"
    by (simp add: at_k)
  show ?thesis
    using lt idk first mem later twice by blast
qed

theorem toggleTodo_effect_witness:
  "trim (js ''b'') \<noteq> [] \<and> js ''b'' \<in> todo_id ` set (todos state_two) \<and>
   (\<exists>k<length (todos state_two).
       todo_id (todos state_two ! k) = js ''b'' \<and>
       todos (fst (toggleTodo env0 (js ''b'') state_two)) =
         (todos state_two)[k := (todos state_two ! k)\<lparr>completed := \<not> completed (todos state_two ! k),
                                                        updatedAt := Date (new_date1 env0)\<rparr>] \<and>
       completed (todos (fst (toggleTodo env0 (js ''b'') (fst (toggleTodo env0 (js ''b'') state_two)))) ! k) =
         completed (todos state_two ! k)) \<and>
   updatedAt (todos state_two ! 1) = Date 300 \<and> 300 \<le> new_date1 env0 \<and>
   todos (fst (toggleTodo env0 (js ''b'') state_two)) =
     [\<lparr>todo_id = js ''a'', todo_text = js ''Buy milk'', completed = True,
       createdAt = Date 100, updatedAt = Date 200\<rparr>,
      \<lparr>todo_id = js ''b'', todo_text = js ''Walk dog'', completed = True,
       createdAt = Date 300, updatedAt = Date 1000\<rparr>] \<and>
   date_ge (Date 1000) (Date 300) \<and>
   map completed (todos (fst (toggleTodo env0 (js ''b'') (fst (toggleTodo env0 (js ''b'') state_two))))) =
     map completed (todos state_two)"
proof -
  have h: "trim (js ''b'') \<noteq> []" by (simp add: js_def trim_def isWhiteSpace_def)
  have p: "js ''b'' \<in> todo_id ` set (todos state_two)" by (simp add: state_two_def)
  have e: "\<exists>k<length (todos state_two).
       todo_id (todos state_two ! k) = js ''b'' \<and>
       todos (fst (toggleTodo env0 (js ''b'') state_two)) =
         (todos state_two)[k := (todos state_two ! k)\<lparr>completed := \<not> completed (todos state_two ! k),
                                                        updatedAt := Date (new_date1 env0)\<rparr>] \<and>
       completed (todos (fst (toggleTodo env0 (js ''b'') (fst (toggleTodo env0 (js ''b'') state_two)))) ! k) =
         completed (todos state_two ! k)"
    using toggleTodo_effect [OF h p, of env0 env0] by blast
  have u: "updatedAt (todos state_two ! 1) = Date 300" "300 \<le> new_date1 env0"
    by (simp_all add: example_defs)
  have v: "todos (fst (toggleTodo env0 (js ''b'') state_two)) =
     [\<lparr>todo_id = js ''a'', todo_text = js ''Buy milk'', completed = True,
       createdAt = Date 100, updatedAt = Date 200\<rparr>,
      \<lparr>todo_id = js ''b'', todo_text = js ''Walk dog'', completed = True,
       createdAt = Date 300, updatedAt = Date 1000\<rparr>]"
    by (simp add: example_defs run_defs)
  have d: "date_ge (Date 1000) (Date 300)" by simp
  have t: "map completed (todos (fst (toggleTodo env0 (js ''b'') (fst (toggleTodo env0 (js ''b'') state_two))))) =
     map completed (todos state_two)"
    by (simp add: example_defs run_defs)
  show ?thesis using h p e u v d t by blast
qed

text \<open>
  A record imported with a timestamp ahead of the clock gets an earlier \<^verbatim>\<open>updatedAt\<close> when
  it is toggled, and a record imported with the empty id cannot be toggled at all.
\<close>

theorem toggleTodo_effect_counterexample:
  "importTodos env0 (Inr future_payload) state0 = (state_future, Inr 1) \<and>
   trim (js ''a'') \<noteq> [] \<and> js ''a'' \<in> todo_id ` set (todos state_future) \<and>
   todos state_future =
     [\<lparr>todo_id = js ''a'', todo_text = js ''Buy milk'', completed = False,
       createdAt = Date 5000, updatedAt = Date 5000\<rparr>] \<and>
   todos (fst (toggleTodo env0 (js ''a'') state_future)) =
     [\<lparr>todo_id = js ''a'', todo_text = js ''Buy milk'', completed = True,
       createdAt = Date 5000, updatedAt = Date 1000\<rparr>] \<and>
   \<not> date_ge (Date 1000) (Date 5000) \<and>
   importTodos env0 (Inr blank_payload) state0 = (state_blank, Inr 1) \<and>
   [] \<in> todo_id ` set (todos state_blank) \<and>
   toggleTodo env0 [] state_blank = (state_blank, Inl (ValidationError ''Todo ID is required''))"
  by (simp add: import_future import_blank) (simp add: example_defs run_defs)

section \<open>Deleting records\<close>

text \<open>
  C8 (as amended).  For every id that is non-empty after trimming: if no record has that id,
  \<^verbatim>\<open>deleteTodo\<close> returns false and the state is unchanged; if some record has it, the first
  such record is removed from the collection, the count decreases by exactly 1, the other
  records are unchanged and keep their relative order, and the call returns true whenever
  the persistence write succeeds.
\<close>

theorem deleteTodo_effect:
  assumes "trim i \<noteq> []"
  shows "(i \<notin> todo_id ` set (todos s) \<longrightarrow> deleteTodo e i s = (s, Inr False)) \<and>
         (i \<in> todo_id ` set (todos s) \<longrightarrow>
            (\<exists>k<length (todos s).
                todo_id (todos s ! k) = i \<and> (\<forall>j<k. todo_id (todos s ! j) \<noteq> i) \<and>
                todos (fst (deleteTodo e i s)) = take k (todos s) @ drop (Suc k) (todos s) \<and>
                getTodosCount (fst (deleteTodo e i s)) + 1 = getTodosCount s \<and>
                (writable e (take k (todos s) @ drop (Suc k) (todos s)) \<longrightarrow>
                   snd (deleteTodo e i s) = Inr True)))"
proof (intro conjI impI)
  assume "i \<notin> todo_id ` set (todos s)"
  with assms show "deleteTodo e i s = (s, Inr False)" by (rule deleteTodo_absent)
next
  assume "i \<in> todo_id ` set (todos s)"
  then obtain k where k: "findIndex (\<lambda>t. todo_id t = i) (todos s) = Some k"
    and lt: "k < length (todos s)" and idk: "todo_id (todos s ! k) = i"
    and first: "\<forall>j<k. todo_id (todos s ! j) \<noteq> i"
    by (rule first_index)
  note d = deleteTodo_found [OF assms k, of e]
  have mem: "todos (fst (deleteTodo e i s)) = take k (todos s) @ drop (Suc k) (todos s)"
    by (simp add: d Let_def)
  have cnt: "getTodosCount (fst (deleteTodo e i s)) + 1 = getTodosCount s"
    using lt by (simp add: mem getTodosCount_def)
  have ret: "writable e (take k (todos s) @ drop (Suc k) (todos s)) \<longrightarrow>
      snd (deleteTodo e i s) = Inr True"
    by (simp add: d Let_def)
  show "\<exists>k<length (todos s).
          todo_id (todos s ! k) = i \<and> (\<forall>j<k. todo_id (todos s ! j) \<noteq> i) \<and>
          todos (fst (deleteTodo e i s)) = take k (todos s) @ drop (Suc k) (todos s) \<and>
          getTodosCount (fst (deleteTodo e i s)) + 1 = getTodosCount s \<and>
          (writable e (take k (todos s) @ drop (Suc k) (todos s)) \<longrightarrow>
             snd (deleteTodo e i s) = Inr True)"
    using lt idk first mem cnt ret by blast
qed

theorem deleteTodo_effect_witness:
  "trim (js ''a'') \<noteq> [] \<and> js ''a'' \<in> todo_id ` set (todos state_two) \<and>
   trim (js ''zz'') \<noteq> [] \<and> js ''zz'' \<notin> todo_id ` set (todos state_two) \<and>
   deleteTodo env0 (js ''zz'') state_two = (state_two, Inr False) \<and>
   (\<exists>k<length (todos state_two).
       todo_id (todos state_two ! k) = js ''a'' \<and>
       todos (fst (deleteTodo env0 (js ''a'') state_two)) =
         take k (todos state_two) @ drop (Suc k) (todos state_two)) \<and>
   writable env0 (take 0 (todos state_two) @ drop (Suc 0) (todos state_two)) \<and>
   todos (fst (deleteTodo env0 (js ''a'') state_two)) =
     [\<lparr>todo_id = js ''b'', todo_text = js ''Walk dog'', completed = False,
       createdAt = Date 300, updatedAt = Date 300\<rparr>] \<and>
   getTodosCount state_two = 2 \<and>
   getTodosCount (fst (deleteTodo env0 (js ''a'') state_two)) = 1 \<and>
   snd (deleteTodo env0 (js ''a'') state_two) = Inr True"
proof -
  have h: "trim (js ''a'') \<noteq> []" by (simp add: js_def trim_def isWhiteSpace_def)
  have h': "trim (js ''zz'') \<noteq> []" by (simp add: js_def trim_def isWhiteSpace_def)
  have p: "js ''a'' \<in> todo_id ` set (todos state_two)" by (simp add: state_two_def)
  have a: "js ''zz'' \<notin> todo_id ` set (todos state_two)" by (simp add: state_two_def js_def)
  have e1: "deleteTodo env0 (js ''zz'') state_two = (state_two, Inr False)"
    using deleteTodo_effect [OF h', of state_two env0] a by simp
  have e2: "\<exists>k<length (todos state_two).
       todo_id (todos state_two ! k) = js ''a'' \<and>
       todos (fst (deleteTodo env0 (js ''a'') state_two)) =
         take k (todos state_two) @ drop (Suc k) (todos state_two)"
    using deleteTodo_effect [OF h, of state_two env0] p by blast
  have w: "writable env0 (take 0 (todos state_two) @ drop (Suc 0) (todos state_two))"
    by (simp add: example_defs writable_def datesValid_def)
  have e3: "todos (fst (deleteTodo env0 (js ''a'') state_two)) =
     [\<lparr>todo_id = js ''b'', todo_text = js ''Walk dog'', completed = False,
       createdAt = Date 300, updatedAt = Date 300\<rparr>]"
    by (simp add: example_defs run_defs)
  have c: "getTodosCount state_two = 2" "getTodosCount (fst (deleteTodo env0 (js ''a'') state_two)) = 1"
    by (simp_all add: example_defs run_defs)
  have e4: "snd (deleteTodo env0 (js ''a'') state_two) = Inr True"
    by (simp add: example_defs run_defs)
  show ?thesis using h h' p a e1 e2 w e3 c e4 by blast
qed

text \<open>
  A non-empty id made of whitespace is rejected with a ValidationError instead of the
  answer false, and for a known id the call raises when the write fails.
\<close>

theorem deleteTodo_effect_counterexample:
  "js '' '' \<noteq> [] \<and> js '' '' \<notin> todo_id ` set (todos state_two) \<and>
   deleteTodo env0 (js '' '') state_two =
     (state_two, Inl (ValidationError ''Todo ID cannot be empty'')) \<and>
   todos (fst (importTodos env0 (Inr undated_payload) state0)) = todos state_undated \<and>
   js ''b'' \<in> todo_id ` set (todos state_undated) \<and> setItem_ok env0 \<and>
   snd (deleteTodo env0 (js ''b'') state_undated) =
     Inl (Error ''Failed to delete todo: Failed to save todos to storage: Failed to save todos to localStorage'')"
  by (simp add: import_undated) (simp add: example_defs run_defs)

text \<open>
  C7 (as amended).  For every collection state, \<^verbatim>\<open>deleteCompletedTodos\<close> removes exactly the
  completed records from the collection and leaves the remaining records in their original
  relative order.  Whenever the persistence write succeeds it returns the number of records
  removed, and a second call in immediate succession whose write succeeds returns 0.
\<close>

theorem deleteCompletedTodos_effect:
  "todos (fst (deleteCompletedTodos e s)) = filter (\<lambda>t. \<not> completed t) (todos s) \<and>
   subseq (todos (fst (deleteCompletedTodos e s))) (todos s) \<and>
   (writable e (filter (\<lambda>t. \<not> completed t) (todos s)) \<longrightarrow>
      snd (deleteCompletedTodos e s) = Inr (length (filter completed (todos s)))) \<and>
   (writable e' (filter (\<lambda>t. \<not> completed t) (todos s)) \<longrightarrow>
      snd (deleteCompletedTodos e' (fst (deleteCompletedTodos e s))) = Inr 0)"
proof -
  have mem: "todos (fst (deleteCompletedTodos e s)) = filter (\<lambda>t. \<not> completed t) (todos s)"
    by (simp add: deleteCompletedTodos_cases Let_def)
  have ret: "snd (deleteCompletedTodos e s) = Inr (length (filter completed (todos s)))"
    if "writable e (filter (\<lambda>t. \<not> completed t) (todos s))" for e s
    using that by (simp add: deleteCompletedTodos_cases Let_def count_removed)
  have again: "snd (deleteCompletedTodos e' (fst (deleteCompletedTodos e s))) = Inr 0"
    if w: "writable e' (filter (\<lambda>t. \<not> completed t) (todos s))"
  proof -
    have "filter (\<lambda>t. \<not> completed t) (todos (fst (deleteCompletedTodos e s))) =
          filter (\<lambda>t. \<not> completed t) (todos s)"
      by (simp add: mem)
    moreover have "filter completed (todos (fst (deleteCompletedTodos e s))) = []"
      by (simp add: mem filter_empty_conv)
    ultimately show ?thesis
      using ret [of e' "fst (deleteCompletedTodos e s)"] w by simp
  qed
  show ?thesis using mem ret again by (simp add: subseq_filter_left)
qed

theorem deleteCompletedTodos_effect_witness:
  "writable env0 (filter (\<lambda>t. \<not> completed t) (todos state_two)) \<and>
   todos (fst (deleteCompletedTodos env0 state_two)) =
     [\<lparr>todo_id = js ''b'', todo_text = js ''Walk dog'', completed = False,
       createdAt = Date 300, updatedAt = Date 300\<rparr>] \<and>
   snd (deleteCompletedTodos env0 state_two) = Inr 1 \<and>
   snd (deleteCompletedTodos env0 (fst (deleteCompletedTodos env0 state_two))) = Inr 0"
proof -
  have w: "writable env0 (filter (\<lambda>t. \<not> completed t) (todos state_two))"
    by (simp add: example_defs writable_def datesValid_def)
  have f: "filter (\<lambda>t. \<not> completed t) (todos state_two) =
     [\<lparr>todo_id = js ''b'', todo_text = js ''Walk dog'', completed = False,
       createdAt = Date 300, updatedAt = Date 300\<rparr>]"
    by (simp add: state_two_def)
  have n: "length (filter completed (todos state_two)) = 1"
    by (simp add: state_two_def)
  from deleteCompletedTodos_effect [of env0 state_two env0] w f n
  show ?thesis by simp
qed

text \<open>
  The call does not return a number in every collection state: a pending record left
  behind by an import with an unparseable date makes every write fail, as does a store that
  refuses the write.
\<close>

theorem deleteCompletedTodos_effect_counterexample:
  "todos (fst (importTodos env0 (Inr undated_payload) state0)) = todos state_undated \<and>
   setItem_ok env0 \<and>
   snd (deleteCompletedTodos env0 state_undated) =
     Inl (Error ''Failed to delete completed todos: Failed to save todos to storage: Failed to save todos to localStorage'') \<and>
   snd (deleteCompletedTodos (env0\<lparr>setItem_ok := False\<rparr>) state_two) =
     Inl (Error ''Failed to delete completed todos: Failed to save todos to storage: Failed to save todos to localStorage'')"
  by (simp add: import_undated) (simp add: example_defs run_defs)

text \<open>
  C10.  \<^verbatim>\<open>clearAll\<close> empties the collection and leaves the current filter selection
  unchanged: in every state \<^verbatim>\<open>getCurrentFilter\<close> returns the same value after the call as
  before it.  The empty collection is what the call writes to the store; the entry holds
  it when the store accepts the write, and otherwise the call raises and the entry stays.
\<close>

theorem clearAll_keeps_filter:
  "getCurrentFilter (fst (clearAll e s)) = getCurrentFilter s \<and>
   ls_filter (fst (clearAll e s)) = ls_filter s \<and>
   todos (fst (clearAll e s)) = [] \<and>
   (if setItem_ok e
    then ls_todos (fst (clearAll e s)) = Some (JArray []) \<and> snd (clearAll e s) = Inr ()
    else ls_todos (fst (clearAll e s)) = ls_todos s \<and>
         snd (clearAll e s) = Inl (Error (''Failed to clear all todos: '' @ saveFailure)))"
  by (simp add: clearAll_def saveToStorage_cases writable_def wrap_def getCurrentFilter_def)

theorem clearAll_keeps_filter_witness:
  "getCurrentFilter state_two = FilterPending \<and>
   getCurrentFilter (fst (clearAll env0 state_two)) = FilterPending \<and>
   todos (fst (clearAll env0 state_two)) = [] \<and>
   ls_todos (fst (clearAll env0 state_two)) = Some (JArray []) \<and>
   snd (clearAll env0 state_two) = Inr ()"
proof -
  have f: "getCurrentFilter state_two = FilterPending"
    by (simp add: getCurrentFilter_def state_two_def)
  have ok: "setItem_ok env0" by (simp add: env0_def)
  from clearAll_keeps_filter [of env0 state_two] f ok show ?thesis by simp
qed

section \<open>Export and import\<close>

lemma key_facts:
  "js ''id'' \<noteq> js ''text''" "js ''id'' \<noteq> js ''completed''" "js ''id'' \<noteq> js ''createdAt''"
  "js ''id'' \<noteq> js ''updatedAt''" "js ''text'' \<noteq> js ''completed''" "js ''text'' \<noteq> js ''createdAt''"
  "js ''text'' \<noteq> js ''updatedAt''" "js ''completed'' \<noteq> js ''createdAt''"
  "js ''completed'' \<noteq> js ''updatedAt''" "js ''createdAt'' \<noteq> js ''updatedAt''"
  by (simp_all add: js_def)

lemma getProp_todo_json:
  "getProp (todo_json e t) (js ''id'') = Some (JString (todo_id t))"
  "getProp (todo_json e t) (js ''text'') = Some (JString (todo_text t))"
  "getProp (todo_json e t) (js ''completed'') = Some (JBool (completed t))"
  "getProp (todo_json e t) (js ''createdAt'') = Some (toJSON e (createdAt t))"
  "getProp (todo_json e t) (js ''updatedAt'') = Some (toJSON e (updatedAt t))"
  using key_facts by (simp_all add: todo_json_def)

lemma isValidTodo_todo_json:
  "isValidTodo (todo_json e t) \<longleftrightarrow> isValidDate (createdAt t) \<and> isValidDate (updatedAt t)"
proof -
  have ty: "typeof_string (Some (toJSON e d)) \<longleftrightarrow> isValidDate d" for d
    by (cases d) simp_all
  have obj: "typeof_object (todo_json e t)" "todo_json e t \<noteq> JNull"
    by (simp_all add: todo_json_def)
  show ?thesis
    by (simp add: isValidTodo_def getProp_todo_json ty obj)
qed

lemma revive_todo_json:
  assumes "reparses e e' (createdAt t)" and "reparses e e' (updatedAt t)"
  shows "revive e' (todo_json e t) = t"
proof -
  have d: "date_parse e' (the_string (Some (toJSON e d))) = d" if "reparses e e' d" for d
    using that by (cases d) (simp_all add: reparses_def)
  show ?thesis
    by (simp add: revive_def getProp_todo_json d [OF assms(1)] d [OF assms(2)])
qed

lemma reparses_valid: "reparses e e' d \<Longrightarrow> isValidDate d"
  by (cases d) (simp_all add: reparses_def)

text \<open>
  C3 (as amended).  For every collection state in which every timestamp is a valid date that
  the platform's parser reads back from its ISO string, and whenever the persistence write
  succeeds, \<^verbatim>\<open>importTodos\<close> applied to the text produced by \<^verbatim>\<open>exportTodos\<close> imports every
  record: it returns their number and leaves the collection with the same sequence of
  records (ids, texts, completed flags and re-parsed timestamps).
\<close>

theorem export_import_roundtrip:
  assumes "list_all (\<lambda>t. reparses e e' (createdAt t) \<and> reparses e e' (updatedAt t)) (todos s)"
    and "setItem_ok e'"
  shows "importTodos e' (Inr (exportTodos e s)) s =
           (s\<lparr>ls_todos := Some (JArray (map (todo_entry e') (todos s)))\<rparr>, Inr (length (todos s)))"
proof -
  have ok: "\<forall>t\<in>set (todos s). reparses e e' (createdAt t) \<and> reparses e e' (updatedAt t)"
    using assms(1) by (simp add: list_all_iff)
  have valid: "filter isValidTodo (map (todo_json e) (todos s)) = map (todo_json e) (todos s)"
    using ok by (auto simp: filter_id_conv isValidTodo_todo_json dest: reparses_valid)
  have again: "map (revive e') (map (todo_json e) (todos s)) = todos s"
    using ok by (simp add: map_idI revive_todo_json)
  have w: "writable e' (todos s)"
    using ok assms(2) by (auto simp: writable_def datesValid_def list_all_iff dest: reparses_valid)
  have "map (revive e') (filter isValidTodo (map (todo_json e) (todos s))) = todos s"
    by (simp only: valid again)
  then show ?thesis
    by (simp add: exportTodos_def importTodos_array w Let_def del: map_map)
qed

theorem export_import_roundtrip_witness:
  "list_all (\<lambda>t. reparses env0 env0 (createdAt t) \<and> reparses env0 env0 (updatedAt t)) (todos state_two) \<and>
   setItem_ok env0 \<and>
   exportTodos env0 state_two =
     JArray [json_entry ''a'' ''Buy milk'' True ''100'' ''200'',
             json_entry ''b'' ''Walk dog'' False ''300'' ''300''] \<and>
   importTodos env0 (Inr (exportTodos env0 state_two)) state_two =
     (state_two\<lparr>ls_todos := Some (JArray (map (todo_entry env0) (todos state_two)))\<rparr>, Inr 2)"
proof -
  have h1: "list_all (\<lambda>t. reparses env0 env0 (createdAt t) \<and> reparses env0 env0 (updatedAt t))
              (todos state_two)"
    by (simp add: reparses_def example_defs)
  have h2: "setItem_ok env0" by (simp add: env0_def)
  have x: "exportTodos env0 state_two =
     JArray [json_entry ''a'' ''Buy milk'' True ''100'' ''200'',
             json_entry ''b'' ''Walk dog'' False ''300'' ''300'']"
    by (simp add: example_defs run_defs)
  have n: "length (todos state_two) = 2" by (simp add: state_two_def)
  from export_import_roundtrip [OF h1 h2] h1 h2 x n show ?thesis by simp
qed

text \<open>
  A record with an invalid date is exported with \<^verbatim>\<open>null\<close> timestamps, which
  \<^verbatim>\<open>isValidTodo\<close> rejects: the round trip drops it.  A refused write makes the import raise.
\<close>

theorem export_import_roundtrip_counterexample:
  "todos (fst (importTodos env0 (Inr undated_payload) state0)) = todos state_undated \<and>
   setItem_ok env0 \<and>
   map todo_id (todos state_undated) = [js ''a'', js ''b''] \<and>
   exportTodos env0 state_undated =
     JArray [JObject [(js ''id'', JString (js ''a'')), (js ''text'', JString (js ''Buy milk'')),
                      (js ''completed'', JBool False), (js ''createdAt'', JNull),
                      (js ''updatedAt'', JNull)],
             json_entry ''b'' ''Walk dog'' True ''1000'' ''1000''] \<and>
   snd (importTodos env0 (Inr (exportTodos env0 state_undated)) state_undated) = Inr 1 \<and>
   map todo_id (todos (fst (importTodos env0 (Inr (exportTodos env0 state_undated)) state_undated))) =
     [js ''b''] \<and>
   snd (importTodos (env0\<lparr>setItem_ok := False\<rparr>) (Inr (exportTodos env0 state_two)) state_two) =
     Inl (Error ''Failed to import todos: Failed to save todos to storage: Failed to save todos to localStorage'')"
  by (simp add: import_undated) (simp add: example_defs run_defs)

section \<open>Failing writes\<close>

text \<open>
  C4.  When the persistence write fails, each of \<^verbatim>\<open>addTodo\<close>, \<^verbatim>\<open>updateTodo\<close>,
  \<^verbatim>\<open>toggleTodo\<close>, \<^verbatim>\<open>deleteTodo\<close>, \<^verbatim>\<open>deleteCompletedTodos\<close>, \<^verbatim>\<open>clearAll\<close> and
  \<^verbatim>\<open>importTodos\<close> raises with the change of the collection already applied (the very
  collection a successful call would have left) and the stored entry untouched, so the two
  differ.  What reaches the caller, however, is a plain \<^verbatim>\<open>Error\<close>: the catch block of each
  method re-throws only a ValidationError and wraps the StorageError of
  \<^verbatim>\<open>saveToStorage\<close> in a new \<^verbatim>\<open>Error\<close>.
\<close>

theorem write_failure_not_rolled_back:
  assumes "\<not> setItem_ok e"
  shows "(trim text \<noteq> [] \<and> length (trim text) \<le> 200 \<longrightarrow>
            addTodo e text s =
              (s\<lparr>todos := todos s @
                   [\<lparr>todo_id = generateId e, todo_text = sanitizeTodoText text, completed = False,
                     createdAt = Date (new_date1 e), updatedAt = Date (new_date2 e)\<rparr>]\<rparr>,
               Inl (Error (''Failed to add todo: '' @ saveFailure)))) \<and>
         (trim i \<noteq> [] \<and> findIndex (\<lambda>t. todo_id t = i) (todos s) = Some k \<and>
          (case u_text u of None \<Rightarrow> True | Some txt \<Rightarrow> trim txt \<noteq> [] \<and> length (trim txt) \<le> 200) \<longrightarrow>
            updateTodo e i u s =
              (s\<lparr>todos := (todos s)
                   [k := (todos s ! k)
                      \<lparr>todo_text := (case u_text u of Some txt \<Rightarrow> sanitizeTodoText txt
                                      | None \<Rightarrow> todo_text (todos s ! k)),
                       completed := (case u_completed u of Some c \<Rightarrow> c
                                     | None \<Rightarrow> completed (todos s ! k)),
                       updatedAt := Date (new_date1 e)\<rparr>]\<rparr>,
               Inl (Error (''Failed to update todo: '' @ saveFailure)))) \<and>
         (trim i \<noteq> [] \<and> findIndex (\<lambda>t. todo_id t = i) (todos s) = Some k \<longrightarrow>
            toggleTodo e i s =
              (s\<lparr>todos := (todos s)
                   [k := (todos s ! k)\<lparr>completed := \<not> completed (todos s ! k),
                                        updatedAt := Date (new_date1 e)\<rparr>]\<rparr>,
               Inl (Error (''Failed to toggle todo: '' @ ''Failed to update todo: '' @ saveFailure)))) \<and>
         (trim i \<noteq> [] \<and> findIndex (\<lambda>t. todo_id t = i) (todos s) = Some k \<longrightarrow>
            deleteTodo e i s =
              (s\<lparr>todos := take k (todos s) @ drop (Suc k) (todos s)\<rparr>,
               Inl (Error (''Failed to delete todo: '' @ saveFailure)))) \<and>
         deleteCompletedTodos e s =
           (s\<lparr>todos := filter (\<lambda>t. \<not> completed t) (todos s)\<rparr>,
            Inl (Error (''Failed to delete completed todos: '' @ saveFailure))) \<and>
         clearAll e s =
           (s\<lparr>todos := []\<rparr>, Inl (Error (''Failed to clear all todos: '' @ saveFailure))) \<and>
         importTodos e (Inr (JArray xs)) s =
           (s\<lparr>todos := map (revive e) (filter isValidTodo xs)\<rparr>,
            Inl (Error (''Failed to import todos: '' @ saveFailure)))"
proof -
  have nw: "\<not> writable e ts" for ts
    using assms by (simp add: writable_def)
  have add: "addTodo e text s =
      (s\<lparr>todos := todos s @
           [\<lparr>todo_id = generateId e, todo_text = sanitizeTodoText text, completed = False,
             createdAt = Date (new_date1 e), updatedAt = Date (new_date2 e)\<rparr>]\<rparr>,
       Inl (Error (''Failed to add todo: '' @ saveFailure)))"
    if "trim text \<noteq> []" "length (trim text) \<le> 200"
    using that by (simp add: addTodo_def validateTodoText_ok saveToStorage_cases nw rethrow_def Let_def)
  have upd: "updateTodo e i u s =
      (s\<lparr>todos := (todos s)
           [k := (todos s ! k)
              \<lparr>todo_text := (case u_text u of Some txt \<Rightarrow> sanitizeTodoText txt
                              | None \<Rightarrow> todo_text (todos s ! k)),
               completed := (case u_completed u of Some c \<Rightarrow> c
                             | None \<Rightarrow> completed (todos s ! k)),
               updatedAt := Date (new_date1 e)\<rparr>]\<rparr>,
       Inl (Error (''Failed to update todo: '' @ saveFailure)))"
    if "trim i \<noteq> []" "findIndex (\<lambda>t. todo_id t = i) (todos s) = Some k"
       "case u_text u of None \<Rightarrow> True | Some txt \<Rightarrow> trim txt \<noteq> [] \<and> length (trim txt) \<le> 200"
    by (simp add: updateTodo_found_any [OF that] nw Let_def)
  have tog: "toggleTodo e i s =
      (s\<lparr>todos := (todos s)
           [k := (todos s ! k)\<lparr>completed := \<not> completed (todos s ! k),
                                updatedAt := Date (new_date1 e)\<rparr>]\<rparr>,
       Inl (Error (''Failed to toggle todo: '' @ ''Failed to update todo: '' @ saveFailure)))"
    if "trim i \<noteq> []" "findIndex (\<lambda>t. todo_id t = i) (todos s) = Some k"
    by (simp add: toggleTodo_found [OF that] nw Let_def)
  have del: "deleteTodo e i s =
      (s\<lparr>todos := take k (todos s) @ drop (Suc k) (todos s)\<rparr>,
       Inl (Error (''Failed to delete todo: '' @ saveFailure)))"
    if "trim i \<noteq> []" "findIndex (\<lambda>t. todo_id t = i) (todos s) = Some k"
    by (simp add: deleteTodo_found [OF that] nw Let_def)
  have dc: "deleteCompletedTodos e s =
      (s\<lparr>todos := filter (\<lambda>t. \<not> completed t) (todos s)\<rparr>,
       Inl (Error (''Failed to delete completed todos: '' @ saveFailure)))"
    by (simp add: deleteCompletedTodos_cases nw Let_def)
  have ca: "clearAll e s =
      (s\<lparr>todos := []\<rparr>, Inl (Error (''Failed to clear all todos: '' @ saveFailure)))"
    by (simp add: clearAll_def saveToStorage_cases nw wrap_def)
  have imp: "importTodos e (Inr (JArray xs)) s =
      (s\<lparr>todos := map (revive e) (filter isValidTodo xs)\<rparr>,
       Inl (Error (''Failed to import todos: '' @ saveFailure)))"
    by (simp add: importTodos_array nw Let_def)
  show ?thesis
    using add upd tog del dc ca imp by blast
qed

theorem write_failure_not_rolled_back_witness:
  "\<not> setItem_ok (env0\<lparr>setItem_ok := False\<rparr>) \<and>
   trim (js ''milk'') \<noteq> [] \<and> length (trim (js ''milk'')) \<le> 200 \<and>
   addTodo (env0\<lparr>setItem_ok := False\<rparr>) (js ''milk'') state0 =
     (state0\<lparr>todos := todos state0 @
        [\<lparr>todo_id = generateId (env0\<lparr>setItem_ok := False\<rparr>), todo_text = sanitizeTodoText (js ''milk''),
          completed = False, createdAt = Date (new_date1 (env0\<lparr>setItem_ok := False\<rparr>)),
          updatedAt = Date (new_date2 (env0\<lparr>setItem_ok := False\<rparr>))\<rparr>]\<rparr>,
      Inl (Error (''Failed to add todo: '' @ saveFailure))) \<and>
   addTodo (env0\<lparr>setItem_ok := False\<rparr>) (js ''milk'') state0 =
     (state0\<lparr>todos := [\<lparr>todo_id = js ''rsk3x'', todo_text = js ''milk'', completed = False,
                          createdAt = Date 1000, updatedAt = Date 1000\<rparr>]\<rparr>,
      Inl (Error ''Failed to add todo: Failed to save todos to storage: Failed to save todos to localStorage'')) \<and>
   \<not> isStorageError (Error ''Failed to add todo: Failed to save todos to storage: Failed to save todos to localStorage'') \<and>
   ls_todos (fst (addTodo (env0\<lparr>setItem_ok := False\<rparr>) (js ''milk'') state0)) = ls_todos state0 \<and>
   trim (js ''b'') \<noteq> [] \<and> findIndex (\<lambda>t. todo_id t = js ''b'') (todos state_two) = Some 1 \<and>
   updateTodo (env0\<lparr>setItem_ok := False\<rparr>) (js ''b'') \<lparr>u_text = None, u_completed = Some True\<rparr> state_two =
     (state_two\<lparr>todos :=
        [\<lparr>todo_id = js ''a'', todo_text = js ''Buy milk'', completed = True,
          createdAt = Date 100, updatedAt = Date 200\<rparr>,
         \<lparr>todo_id = js ''b'', todo_text = js ''Walk dog'', completed = True,
          createdAt = Date 300, updatedAt = Date 1000\<rparr>]\<rparr>,
      Inl (Error ''Failed to update todo: Failed to save todos to storage: Failed to save todos to localStorage'')) \<and>
   todos (fst (updateTodo (env0\<lparr>setItem_ok := False\<rparr>) (js ''b'')
                 \<lparr>u_text = None, u_completed = Some True\<rparr> state_two)) \<noteq> todos state_two"
proof -
  let ?f = "env0\<lparr>setItem_ok := False\<rparr>"
  let ?u = "\<lparr>u_text = None, u_completed = Some True\<rparr>"
  have h: "\<not> setItem_ok ?f" by simp
  have v: "trim (js ''milk'') \<noteq> [] \<and> length (trim (js ''milk'')) \<le> 200"
    by (simp add: js_def trim_def isWhiteSpace_def)
  have g: "addTodo ?f (js ''milk'') state0 =
     (state0\<lparr>todos := todos state0 @
        [\<lparr>todo_id = generateId ?f, todo_text = sanitizeTodoText (js ''milk''),
          completed = False, createdAt = Date (new_date1 ?f), updatedAt = Date (new_date2 ?f)\<rparr>]\<rparr>,
      Inl (Error (''Failed to add todo: '' @ saveFailure)))"
    using write_failure_not_rolled_back [OF h, of "js ''milk''" state0] v by blast
  have c: "addTodo ?f (js ''milk'') state0 =
     (state0\<lparr>todos := [\<lparr>todo_id = js ''rsk3x'', todo_text = js ''milk'', completed = False,
                          createdAt = Date 1000, updatedAt = Date 1000\<rparr>]\<rparr>,
      Inl (Error ''Failed to add todo: Failed to save todos to storage: Failed to save todos to localStorage''))"
    by (simp add: example_defs run_defs)
  have b: "trim (js ''b'') \<noteq> []" by (simp add: js_def trim_def isWhiteSpace_def)
  have k: "findIndex (\<lambda>t. todo_id t = js ''b'') (todos state_two) = Some 1"
    by (simp add: state_two_def js_def)
  have u: "updateTodo ?f (js ''b'') ?u state_two =
     (state_two\<lparr>todos :=
        [\<lparr>todo_id = js ''a'', todo_text = js ''Buy milk'', completed = True,
          createdAt = Date 100, updatedAt = Date 200\<rparr>,
         \<lparr>todo_id = js ''b'', todo_text = js ''Walk dog'', completed = True,
          createdAt = Date 300, updatedAt = Date 1000\<rparr>]\<rparr>,
      Inl (Error ''Failed to update todo: Failed to save todos to storage: Failed to save todos to localStorage''))"
    by (simp add: example_defs run_defs)
  have d: "todos (fst (updateTodo ?f (js ''b'') ?u state_two)) \<noteq> todos state_two"
    unfolding u by (simp add: state_two_def)
  have l: "ls_todos (fst (addTodo ?f (js ''milk'') state0)) = ls_todos state0"
    unfolding c by simp
  show ?thesis using h v g c l b k u d by simp
qed

section \<open>Invariants of the reachable states\<close>






















end
